theory Spec2Isabelle
  imports Main "HOL-Library.Multiset" "HOL-Library.AList"
begin

section \<open>Python values used by the pipeline\<close>

text \<open>
  A Python \<open>str\<close> is a sequence of Unicode code points and \<open>len\<close> counts code points,
  so a string is modelled as a list of code points. \<open>py\<close> embeds an ASCII literal; the
  emoji of the templates are written as their code points.
\<close>

type_synonym pystr = "nat list"

definition py :: "string \<Rightarrow> pystr" where
  "py s = map of_char s"

text \<open>The exceptions that the modelled code paths can raise.\<close>

datatype error =
    ValueError
  | KeyError
  | IndexError
  | AttributeError
  | TypeError
  | JSONDecodeError
  | FormatSpecNotModelled

text \<open>\<open>sep.join(parts)\<close>.\<close>

fun join :: "pystr \<Rightarrow> pystr list \<Rightarrow> pystr" where
  "join sep [] = []"
| "join sep [p] = p"
| "join sep (p # q # ps) = p @ sep @ join sep (q # ps)"

text \<open>\<open>needle in haystack\<close> for strings: the needle occurs as a contiguous run.\<close>

definition contains :: "pystr \<Rightarrow> pystr \<Rightarrow> bool" where
  "contains haystack needle \<longleftrightarrow> (\<exists>pre post. haystack = pre @ needle @ post)"

subsection \<open>\<open>str.format\<close> with keyword arguments\<close>

text \<open>
  The fragment of \<open>template.format(**kwargs)\<close> that templates of this program use:
  literal text, the escapes \<open>{{\<close> and \<open>}}\<close>, and replacement fields \<open>{name}\<close>.
  A lone \<open>}\<close>, a lone \<open>{\<close> and an unterminated field raise \<open>ValueError\<close>; an empty or
  numeric field name asks for a positional argument, of which there are none
  (\<open>IndexError\<close>); a name that is not among the keyword arguments raises \<open>KeyError\<close>.
  Keyword arguments that no field names are ignored, as in Python. Fields with a
  conversion, a format specification, attribute or index access or nested braces are
  outside the fragment and are reported as \<open>FormatSpecNotModelled\<close>.
  The text substituted for a field is not scanned again.
\<close>

definition lbrace :: nat where "lbrace = 123"
definition rbrace :: nat where "rbrace = 125"

definition is_digit :: "nat \<Rightarrow> bool" where
  "is_digit c \<longleftrightarrow> 48 \<le> c \<and> c \<le> 57"

definition field_special :: "nat \<Rightarrow> bool" where
  "field_special c \<longleftrightarrow> c = 33 \<or> c = 58 \<or> c = 46 \<or> c = 91 \<or> c = lbrace"

definition get_field :: "(pystr \<times> pystr) list \<Rightarrow> pystr \<Rightarrow> error + pystr" where
  "get_field kwargs name =
     (if list_ex field_special name then Inl FormatSpecNotModelled
      else if list_all is_digit name then Inl IndexError
      else (case map_of kwargs name of None \<Rightarrow> Inl KeyError | Some v \<Rightarrow> Inr v))"

definition prepend :: "pystr \<Rightarrow> error + pystr \<Rightarrow> error + pystr" where
  "prepend s r = (case r of Inl e \<Rightarrow> Inl e | Inr t \<Rightarrow> Inr (s @ t))"

text \<open>
  The scanner: \<open>fld = None\<close> while reading literal text, \<open>fld = Some name\<close> while inside
  a replacement field whose name read so far is \<open>name\<close>.
\<close>

fun format_scan :: "(pystr \<times> pystr) list \<Rightarrow> pystr option \<Rightarrow> pystr \<Rightarrow> error + pystr" where
  "format_scan kwargs None [] = Inr []"
| "format_scan kwargs (Some name) [] = Inl ValueError"
| "format_scan kwargs (Some name) (c # cs) =
     (if c = rbrace then
        (case get_field kwargs name of
           Inl e \<Rightarrow> Inl e
         | Inr v \<Rightarrow> prepend v (format_scan kwargs None cs))
      else format_scan kwargs (Some (name @ [c])) cs)"
| "format_scan kwargs None [c] =
     (if c = lbrace \<or> c = rbrace then Inl ValueError else Inr [c])"
| "format_scan kwargs None (c # d # cs) =
     (if c = lbrace then
        (if d = lbrace then prepend [lbrace] (format_scan kwargs None cs)
         else format_scan kwargs (Some []) (d # cs))
      else if c = rbrace then
        (if d = rbrace then prepend [rbrace] (format_scan kwargs None cs)
         else Inl ValueError)
      else prepend [c] (format_scan kwargs None (d # cs)))"

definition format :: "pystr \<Rightarrow> (pystr \<times> pystr) list \<Rightarrow> error + pystr" where
  "format template kwargs = format_scan kwargs None template"


section \<open>The trend data handed to the generator\<close>

text \<open>
  The trends client returns, for one keyword, a dictionary whose \<open>'top'\<close> and
  \<open>'rising'\<close> entries are each \<open>None\<close> or a pandas \<open>DataFrame\<close> of related queries
  (\<open>generate_context\<close> reads \<open>.empty\<close> and \<open>.iloc[0]['query']\<close> of the entry). Of a
  frame only the \<open>'query'\<close> column is read, so a frame is its list of queries.
  Dictionaries are association lists in insertion order, read with \<open>map_of\<close>.
\<close>

datatype top_value = PyNone | DataFrame "pystr list"

type_synonym related_queries = "(pystr \<times> top_value) list"
type_synonym interest_data = "(pystr \<times> int) list"

text \<open>
  The truth value that an \<open>if\<close> statement takes of \<open>related_queries.get('top')\<close>.
  \<open>None\<close> (also when the key is absent) is false. pandas gives a \<open>DataFrame\<close> no truth
  value: \<open>DataFrame.__bool__\<close> raises \<open>ValueError\<close> ("The truth value of a DataFrame
  is ambiguous"), for an empty frame as for any other.
\<close>

fun truth_value :: "top_value option \<Rightarrow> error + bool" where
  "truth_value None = Inr False"
| "truth_value (Some PyNone) = Inr False"
| "truth_value (Some (DataFrame rows)) = Inl ValueError"

section \<open>\<open>SocialMediaGenerator\<close>\<close>

record generator =
  post_templates :: "(pystr \<times> pystr list) list"
  hashtags_kenya :: "pystr list"

definition SocialMediaGenerator_init :: generator where
  "SocialMediaGenerator_init = \<lparr>
     post_templates = [
       (py ''trending'', [
          [128293] @ py '' What's trending in Kenya right now: '{keyword}' is gaining massive attention! {context} #TrendingKenya #Kenya'',
          [128200] @ py '' Kenyans are talking about '{keyword}' - here's what you need to know: {context} #KenyaTrends'',
          [127472] @ [127466] @ py '' Breaking: '{keyword}' is trending across Kenya! {context} #KenyaNews #Trending'',
          [9889] @ py '' Hot topic alert: '{keyword}' is the talk of Kenya today! {context} #KenyaTrends #Viral'']),
       (py ''educational'', [
          [128218] @ py '' Did you know? '{keyword}' is trending in Kenya. Here's why it matters: {context} #LearnSomethingNew #Kenya'',
          [127891] @ py '' Trending topic breakdown: '{keyword}' explained for Kenyans {context} #Education #KenyaInsights'',
          [128161] @ py '' Understanding the buzz around '{keyword}' in Kenya: {context} #Knowledge #TrendAnalysis'']),
       (py ''engagement'', [
          [129300] @ py '' What do you think about '{keyword}' trending in Kenya? Share your thoughts! {context} #KenyaDebate'',
          [128202] @ py '' Poll time! How do you feel about '{keyword}' trending in Kenya? {context} #KenyaOpinion #Vote'',
          [128172] @ py '' Let's discuss: '{keyword}' is trending - what's your take, Kenya? {context} #Discussion''])],
     hashtags_kenya = [
       py ''#Kenya'', py ''#Nairobi'', py ''#KenyaTrends'', py ''#KOT'', py ''#TukoTogether'',
       py ''#KenyaDaily'', py ''#EastAfrica'', py ''#Kenyan'', py ''#NairobiLife'', py ''#KenyaNews''] \<rparr>"

subsection \<open>\<open>generate_context\<close>\<close>

definition peak_phrase :: pystr where
  "peak_phrase = py ''Search interest is at its peak!''"

definition growing_phrase :: pystr where
  "growing_phrase = py ''Growing rapidly in search trends.''"

definition momentum_phrase :: pystr where
  "momentum_phrase = py ''Gaining momentum in search interest.''"

definition fallback_phrase :: pystr where
  "fallback_phrase = py ''Stay updated with the latest trends!''"

definition related_phrase :: "pystr \<Rightarrow> pystr" where
  "related_phrase related_query = py ''Related searches include '' @ [39] @ related_query @ [39]"

text \<open>The interest branch: the phrases appended when the keyword is in \<open>interest_data\<close>.\<close>

definition interest_parts :: "pystr \<Rightarrow> interest_data \<Rightarrow> pystr list" where
  "interest_parts keyword interest_data =
     (case map_of interest_data keyword of
        None \<Rightarrow> []
      | Some interest_level \<Rightarrow>
          if interest_level > 80 then [peak_phrase]
          else if interest_level > 50 then [growing_phrase]
          else [momentum_phrase])"

text \<open>The last line: the parts joined by one space, or the fallback when there are none.\<close>

definition context_result :: "pystr list \<Rightarrow> pystr" where
  "context_result context_parts =
     (if context_parts \<noteq> [] then join (py '' '') context_parts else fallback_phrase)"

definition generate_context :: "pystr \<Rightarrow> interest_data \<Rightarrow> related_queries \<Rightarrow> error + pystr" where
  "generate_context keyword interest_data related_queries =
     (let context_parts = interest_parts keyword interest_data;
          top = map_of related_queries (py ''top'')
      in case truth_value top of
           Inl e \<Rightarrow> Inl e
         | Inr False \<Rightarrow> Inr (context_result context_parts)
         | Inr True \<Rightarrow>
             (case top of
                Some (DataFrame top_queries) \<Rightarrow>
                  (if top_queries \<noteq> [] \<and> length top_queries > 0
                   then Inr (context_result (context_parts @ [related_phrase (hd top_queries)]))
                   else Inr (context_result context_parts))
              | _ \<Rightarrow> Inl AttributeError))"

subsection \<open>The random source and the clock\<close>

text \<open>
  \<open>random\<close> is unseeded. Its raw output is a stream of naturals handed to the model;
  \<open>randbelow n\<close> reduces the next raw draw below \<open>n\<close>, so every outcome of the library
  call is the outcome for some stream and every stream gives an outcome the library
  can produce.
\<close>

type_synonym rand = "nat \<Rightarrow> nat"

definition randbelow :: "rand \<Rightarrow> nat \<Rightarrow> nat \<times> rand" where
  "randbelow r n = (r 0 mod n, \<lambda>i. r (Suc i))"

text \<open>\<open>random.choice(seq)\<close>: \<open>IndexError\<close> on an empty sequence.\<close>

definition choice :: "rand \<Rightarrow> 'a list \<Rightarrow> error + ('a \<times> rand)" where
  "choice r seq =
     (if seq = [] then Inl IndexError
      else (case randbelow r (length seq) of (j, r') \<Rightarrow> Inr (seq ! j, r')))"

text \<open>
  \<open>random.sample(population, k)\<close>: \<open>ValueError\<close> when \<open>k\<close> exceeds the population;
  otherwise \<open>k\<close> draws from a copy of the population, each drawn item replaced by the
  last unselected one, which is then dropped from the pool.
\<close>

fun sample_loop :: "nat \<Rightarrow> 'a list \<Rightarrow> rand \<Rightarrow> 'a list \<times> rand" where
  "sample_loop 0 pool r = ([], r)"
| "sample_loop (Suc k) pool r =
     (case randbelow r (length pool) of (j, r1) \<Rightarrow>
        (case sample_loop k (butlast (pool[j := last pool])) r1 of (xs, r2) \<Rightarrow>
           (pool ! j # xs, r2)))"

definition sample :: "rand \<Rightarrow> 'a list \<Rightarrow> nat \<Rightarrow> error + ('a list \<times> rand)" where
  "sample r population k =
     (if k > length population then Inl ValueError
      else Inr (sample_loop k population r))"

text \<open>
  \<open>datetime.now()\<close>: a reading of the clock, kept as the two renderings the program
  takes of it, \<open>.isoformat()\<close> and \<open>.strftime("%Y%m%d_%H%M%S")\<close>. The clock is a stream
  of readings.
\<close>

record datetime =
  isoformat :: pystr
  strftime :: pystr

type_synonym clock = "nat \<Rightarrow> datetime"

definition now :: "clock \<Rightarrow> datetime \<times> clock" where
  "now c = (c 0, \<lambda>i. c (Suc i))"

subsection \<open>\<open>create_social_media_posts\<close>\<close>

record post =
  content :: pystr
  keyword :: pystr
  template_type :: pystr
  timestamp :: pystr
  platform :: pystr
  character_count :: nat

text \<open>\<open>d.get(key, {})\<close> on the dictionary of related queries per keyword.\<close>

definition get_related :: "(pystr \<times> related_queries) list \<Rightarrow> pystr \<Rightarrow> related_queries" where
  "get_related related_queries_data kw =
     (case map_of related_queries_data kw of None \<Rightarrow> [] | Some d \<Rightarrow> d)"

text \<open>\<open>self.post_templates[template_type]\<close>: \<open>KeyError\<close> when the key is missing.\<close>

definition lookup_templates :: "generator \<Rightarrow> pystr \<Rightarrow> error + pystr list" where
  "lookup_templates gen ttype =
     (case map_of (post_templates gen) ttype of
        None \<Rightarrow> Inl KeyError
      | Some pool \<Rightarrow> Inr pool)"

definition template_types :: "pystr list" where
  "template_types = [py ''trending'', py ''educational'', py ''engagement'']"

text \<open>
  An exception ends the computation that raised it: \<open>bind_err\<close> runs the rest only on a
  result.
\<close>

definition bind_err :: "error + 'a \<Rightarrow> ('a \<Rightarrow> error + 'b) \<Rightarrow> error + 'b" where
  "bind_err m f = (case m of Inl e \<Rightarrow> Inl e | Inr x \<Rightarrow> f x)"

text \<open>One pass of the loop body, for one keyword.\<close>

definition make_post ::
  "generator \<Rightarrow> pystr \<Rightarrow> interest_data \<Rightarrow> (pystr \<times> related_queries) list \<Rightarrow>
   rand \<times> clock \<Rightarrow> error + (post \<times> rand \<times> clock)" where
  "make_post gen kw interest related_queries_data env =
     bind_err (generate_context kw interest (get_related related_queries_data kw)) (\<lambda>context.
     bind_err (choice (fst env) template_types) (\<lambda>(ttype, r1).
     bind_err (lookup_templates gen ttype) (\<lambda>pool.
     bind_err (choice r1 pool) (\<lambda>(template, r2).
     bind_err (format template [(py ''keyword'', kw), (py ''context'', context)]) (\<lambda>formatted.
     bind_err (sample r2 (hashtags_kenya gen) 3) (\<lambda>(hashtags, r3).
       (let post_content = formatted @ py '' '' @ join (py '' '') hashtags;
            t = fst (now (snd env))
        in Inr (\<lparr> content = post_content,
                   keyword = kw,
                   template_type = ttype,
                   timestamp = isoformat t,
                   platform = py ''multiple'',
                   character_count = length post_content \<rparr>,
                r3, snd (now (snd env))))))))))"

text \<open>The loop over the keywords; an exception in one pass leaves the loop.\<close>

fun posts_loop ::
  "generator \<Rightarrow> pystr list \<Rightarrow> interest_data \<Rightarrow> (pystr \<times> related_queries) list \<Rightarrow>
   rand \<times> clock \<Rightarrow> error + (post list \<times> rand \<times> clock)" where
  "posts_loop gen [] interest related_queries_data env = Inr ([], env)"
| "posts_loop gen (kw # kws) interest related_queries_data env =
     bind_err (make_post gen kw interest related_queries_data env) (\<lambda>(p, env1).
     bind_err (posts_loop gen kws interest related_queries_data env1) (\<lambda>(ps, env2).
       Inr (p # ps, env2)))"

definition create_social_media_posts ::
  "generator \<Rightarrow> pystr list \<Rightarrow> interest_data \<Rightarrow> (pystr \<times> related_queries) list \<Rightarrow>
   rand \<times> clock \<Rightarrow> error + (post list \<times> rand \<times> clock)" where
  "create_social_media_posts gen trending_keywords interest related_queries_data env =
     posts_loop gen (take 5 trending_keywords) interest related_queries_data env"


section \<open>\<open>Config\<close>\<close>

definition POST_TEMPLATES :: "(pystr \<times> pystr list) list" where
  "POST_TEMPLATES = [
     (py ''trending'', [
        [128293] @ py '' What's hot in Kenya: '{keyword}' is trending! {context} #TrendingKenya'',
        [128200] @ py '' Kenyans can't stop talking about '{keyword}' - {context} #KOT #Kenya'',
        [9889] @ py '' Breaking trend: '{keyword}' is taking over Kenya! {context} #Viral'',
        [127472] @ [127466] @ py '' Trending now: '{keyword}' - here's what Kenyans are saying {context}'']),
     (py ''educational'', [
        [128218] @ py '' Trend explained: Why '{keyword}' is popular in Kenya {context} #Education'',
        [128161] @ py '' Understanding '{keyword}': {context} #LearnSomethingNew #Kenya'',
        [127891] @ py '' Kenyan trend spotlight: '{keyword}' - {context} #KnowledgeIsWealth'',
        [128214] @ py '' Deep dive: '{keyword}' and its impact in Kenya {context}'']),
     (py ''engagement'', [
        [129300] @ py '' What's your take on '{keyword}' trending in Kenya? {context} #KenyaDebate'',
        [128202] @ py '' Quick poll: How do you feel about '{keyword}'? {context} #KenyaOpinion'',
        [128172] @ py '' Let's discuss '{keyword}' - what are your thoughts, KOT? {context}'',
        [128483] @ [65039] @ py '' Kenya speaks: Share your opinion on '{keyword}' {context} #Discussion'']),
     (py ''news'', [
        [128240] @ py '' News update: '{keyword}' making headlines in Kenya {context} #KenyaNews'',
        [128680] @ py '' Alert: '{keyword}' - here's what Kenyans need to know {context}'',
        [128226] @ py '' Update on '{keyword}': {context} #NewsUpdate #Kenya'',
        [9888] @ [65039] @ py '' Important: '{keyword}' trending - stay informed {context}''])]"

text \<open>
  \<open>cls.POST_TEMPLATES.get(category, cls.POST_TEMPLATES['trending'])\<close>: the default is
  looked up first, with \<open>KeyError\<close> should the table lack it.
\<close>

definition get_template_by_category :: "pystr \<Rightarrow> error + pystr list" where
  "get_template_by_category category =
     (case map_of POST_TEMPLATES (py ''trending'') of
        None \<Rightarrow> Inl KeyError
      | Some default_pool \<Rightarrow>
          Inr (case map_of POST_TEMPLATES category of
                 None \<Rightarrow> default_pool
               | Some pool \<Rightarrow> pool))"

section \<open>\<open>TrendsAutomationSystem\<close>\<close>

text \<open>
  What \<open>json.load\<close> returns. A file holds a JSON document, or text that \<open>json.load\<close>
  rejects with \<open>JSONDecodeError\<close>; the file system maps a name to its file, if any.
  What is printed is kept as a list of messages.
\<close>

datatype json =
    JNull
  | JBool bool
  | JNum int
  | JStr pystr
  | JList "json list"
  | JObj "(pystr \<times> json) list"

datatype file_content = Malformed | Doc json

datatype message =
    Starting datetime
  | FetchingTrending
  | NoKeywordsFound
  | Found nat "pystr list"
  | AnalyzingInterest
  | FetchingRelated
  | GeneratingPosts
  | DataSaved pystr
  | ErrorSavingData error
  | ErrorSavingProcessed error
  | Generated nat
  | PostShown post
  | Completed datetime
  | ErrorInAutomation error

record world =
  files :: "pystr \<Rightarrow> file_content option"
  stdout :: "message list"

definition print :: "message list \<Rightarrow> world \<Rightarrow> world" where
  "print ms w = w\<lparr>stdout := stdout w @ ms\<rparr>"

text \<open>
  The trends client (\<open>GoogleTrendsKenya\<close>) is outside the pipeline; each of its methods
  catches every exception and returns an empty result instead.
\<close>

record trend_source =
  get_trending_searches :: "pystr list"
  get_interest_over_time :: "pystr list \<Rightarrow> interest_data"
  get_related_queries :: "pystr \<Rightarrow> related_queries"

subsection \<open>\<open>load_previous_trends\<close> and \<open>save_processed_trends\<close>\<close>

definition previous_trends_json :: pystr where
  "previous_trends_json = py ''previous_trends.json''"

text \<open>
  Only \<open>FileNotFoundError\<close> is caught. \<open>data.get\<close> exists on a dictionary only.
\<close>

definition load_previous_trends :: "world \<Rightarrow> pystr \<Rightarrow> error + json" where
  "load_previous_trends w filename =
     (case files w filename of
        None \<Rightarrow> Inr (JList [])
      | Some Malformed \<Rightarrow> Inl JSONDecodeError
      | Some (Doc (JObj data)) \<Rightarrow>
          Inr (case map_of data (py ''processed_keywords'') of
                 None \<Rightarrow> JList []
               | Some v \<Rightarrow> v)
      | Some (Doc _) \<Rightarrow> Inl AttributeError)"

definition save_processed_trends :: "clock \<Rightarrow> world \<Rightarrow> pystr list \<Rightarrow> pystr \<Rightarrow> world" where
  "save_processed_trends c w keywords filename =
     w\<lparr>files := (files w)(filename \<mapsto>
          Doc (JObj [(py ''processed_keywords'', JList (map JStr keywords)),
                     (py ''last_updated'', JStr (isoformat (fst (now c))))]))\<rparr>"

subsection \<open>\<open>save_data\<close>\<close>

text \<open>
  \<open>json.dump\<close> raises \<open>TypeError\<close> on a \<open>DataFrame\<close>; \<open>None\<close> is written as \<open>null\<close>.
  A document that cannot be written is \<open>None\<close> here.
\<close>

definition post_json :: "post \<Rightarrow> json" where
  "post_json p = JObj [
     (py ''content'', JStr (content p)),
     (py ''keyword'', JStr (keyword p)),
     (py ''template_type'', JStr (template_type p)),
     (py ''timestamp'', JStr (timestamp p)),
     (py ''platform'', JStr (platform p)),
     (py ''character_count'', JNum (int (character_count p)))]"

definition related_json :: "related_queries \<Rightarrow> json option" where
  "related_json d =
     (if list_all (\<lambda>kv. snd kv = PyNone) d
      then Some (JObj (map (\<lambda>kv. (fst kv, JNull)) d))
      else None)"

definition automation_data ::
  "pystr \<Rightarrow> pystr list \<Rightarrow> interest_data \<Rightarrow> (pystr \<times> related_queries) list \<Rightarrow> post list \<Rightarrow>
   json option" where
  "automation_data ts trending_keywords interest related_queries_data posts =
     (if list_all (\<lambda>kv. related_json (snd kv) \<noteq> None) related_queries_data
      then Some (JObj [
        (py ''timestamp'', JStr ts),
        (py ''trending_keywords'', JList (map JStr trending_keywords)),
        (py ''interest_data'', JObj (map (\<lambda>kv. (fst kv, JNum (snd kv))) interest)),
        (py ''related_queries'',
           JObj (map (\<lambda>kv. (fst kv, the (related_json (snd kv)))) related_queries_data)),
        (py ''generated_posts'', JList (map post_json posts))])
      else None)"

text \<open>
  The file is opened for writing before \<open>json.dump\<close> runs, so a failed dump leaves a
  file whose text is cut short. Every exception is caught and printed.
\<close>

definition save_data :: "clock \<Rightarrow> world \<Rightarrow> json option \<Rightarrow> pystr option \<Rightarrow> world" where
  "save_data c w data filename =
     (let name = (case filename of
                    None \<Rightarrow> py ''kenya_trends_data_'' @ strftime (fst (now c)) @ py ''.json''
                  | Some f \<Rightarrow> if f = [] then py ''kenya_trends_data_'' @ strftime (fst (now c)) @ py ''.json''
                              else f)
      in case data of
           Some doc \<Rightarrow> print [DataSaved name] (w\<lparr>files := (files w)(name \<mapsto> Doc doc)\<rparr>)
         | None \<Rightarrow> print [ErrorSavingData TypeError] (w\<lparr>files := (files w)(name \<mapsto> Malformed)\<rparr>))"

subsection \<open>\<open>run_automation\<close>\<close>

text \<open>The loop \<open>for keyword in trending_keywords[:3]: related_queries_data[keyword] = ...\<close>.\<close>

definition fetch_related ::
  "(pystr \<Rightarrow> related_queries) \<Rightarrow> pystr list \<Rightarrow> (pystr \<times> related_queries) list" where
  "fetch_related f kws = foldl (\<lambda>d kw. AList.update kw (f kw) d) [] kws"

text \<open>
  One run. The clock is read for the opening message, once per post, for the timestamp
  of the data, for the file name and for the closing message. An exception from the
  generator is caught at the top level of the run and printed.
\<close>

definition run_automation ::
  "trend_source \<Rightarrow> generator \<Rightarrow> rand \<times> clock \<Rightarrow> world \<Rightarrow> world" where
  "run_automation src gen env w =
     (let c1 = snd (now (snd env));
          w1 = print [Starting (fst (now (snd env))), FetchingTrending] w;
          trending_keywords = get_trending_searches src
      in if trending_keywords = [] then print [NoKeywordsFound] w1
         else
           (let w2 = print [Found (length trending_keywords) (take 3 trending_keywords),
                            AnalyzingInterest] w1;
                interest = get_interest_over_time src (take 5 trending_keywords);
                w3 = print [FetchingRelated] w2;
                related_queries_data =
                  fetch_related (get_related_queries src) (take 3 trending_keywords);
                w4 = print [GeneratingPosts] w3
            in case create_social_media_posts gen trending_keywords interest
                      related_queries_data (fst env, c1) of
                 Inl e \<Rightarrow> print [ErrorInAutomation e] w4
               | Inr (posts, env2) \<Rightarrow>
                   (let c2 = snd env2;
                        data = automation_data (isoformat (fst (now c2))) trending_keywords
                                 interest related_queries_data posts;
                        c3 = snd (now c2);
                        w5 = save_data c3 w4 data None;
                        c4 = snd (now c3);
                        w6 = print (Generated (length posts) # map PostShown posts) w5
                    in print [Completed (fst (now c4))] w6)))"

section \<open>Inputs used in examples\<close>

text \<open>A clock that always reads the same instant.\<close>

definition example_clock :: clock where
  "example_clock = (\<lambda>i. \<lparr>isoformat = py ''2024-01-01T09:00:00'', strftime = py ''20240101_090000''\<rparr>)"

text \<open>
  The post that the generator composes for the keyword \<open>NTSA\<close> with interest 85 and no
  related queries when every random draw is 0.
\<close>

definition example_content :: pystr where
  "example_content = [128293] @ py '' What's trending in Kenya right now: 'NTSA' is gaining massive attention! Search interest is at its peak! #TrendingKenya #Kenya #Kenya #KenyaNews #NairobiLife''"

definition example_post :: post where
  "example_post = \<lparr>
     content = example_content,
     keyword = py ''NTSA'',
     template_type = py ''trending'',
     timestamp = py ''2024-01-01T09:00:00'',
     platform = py ''multiple'',
     character_count = length example_content \<rparr>"


section \<open>Properties of the template table\<close>

lemma map_of_POST_TEMPLATES_trending:
  "\<exists>a b c d. map_of POST_TEMPLATES (py ''trending'') = Some [a, b, c, d]"
  by (simp add: POST_TEMPLATES_def py_def)

lemma POST_TEMPLATES_pools_nonempty:
  "map_of POST_TEMPLATES category = Some pool \<Longrightarrow> pool \<noteq> []"
  by (auto simp: POST_TEMPLATES_def py_def split: if_splits)

lemma POST_TEMPLATES_keys:
  "map fst POST_TEMPLATES = [py ''trending'', py ''educational'', py ''engagement'', py ''news'']"
  by (simp add: POST_TEMPLATES_def)

text \<open>
  C8. For every category string \<open>get_template_by_category\<close> returns a pool and never
  raises; the pool is never empty; it is the pool of that category when the table has
  the category, and the \<open>trending\<close> pool when the category is none of the four defined
  ones; every defined category has a non-empty pool.
\<close>

theorem get_template_by_category_pool:
  "\<exists>pool. get_template_by_category category = Inr pool \<and> pool \<noteq> [] \<and>
     (map_of POST_TEMPLATES category = Some pool \<or>
      (category \<notin> set [py ''trending'', py ''educational'', py ''engagement'', py ''news''] \<and>
       map_of POST_TEMPLATES (py ''trending'') = Some pool)) \<and>
     list_all (\<lambda>kv. snd kv \<noteq> []) POST_TEMPLATES \<and>
     map fst POST_TEMPLATES = [py ''trending'', py ''educational'', py ''engagement'', py ''news'']"
proof -
  obtain a b c d where tr: "map_of POST_TEMPLATES (py ''trending'') = Some [a, b, c, d]"
    using map_of_POST_TEMPLATES_trending by blast
  have ne: "list_all (\<lambda>kv. snd kv \<noteq> []) POST_TEMPLATES"
    by (simp add: POST_TEMPLATES_def)
  show ?thesis
  proof (cases "map_of POST_TEMPLATES category")
    case None
    then have "category \<notin> fst ` set POST_TEMPLATES"
      by (simp add: map_of_eq_None_iff)
    then have "category \<notin> set (map fst POST_TEMPLATES)" by simp
    then have "category \<notin> set [py ''trending'', py ''educational'', py ''engagement'', py ''news'']"
      unfolding POST_TEMPLATES_keys .
    with None tr ne show ?thesis
      by (simp add: get_template_by_category_def POST_TEMPLATES_keys)
  next
    case (Some pool)
    with tr ne POST_TEMPLATES_pools_nonempty[OF Some] show ?thesis
      by (simp add: get_template_by_category_def POST_TEMPLATES_keys)
  qed
qed

theorem get_template_by_category_pool_witness:
  "\<exists>pool. get_template_by_category (py ''sports'') = Inr pool \<and> pool \<noteq> [] \<and>
     map_of POST_TEMPLATES (py ''trending'') = Some pool"
proof -
  have "map_of POST_TEMPLATES (py ''sports'') = None"
    by (simp add: POST_TEMPLATES_def py_def)
  with get_template_by_category_pool[of "py ''sports''"] show ?thesis by auto
qed

section \<open>Properties of the processed-keyword log\<close>

text \<open>
  C3, as the code has it. When the log file is missing, \<open>load_previous_trends\<close> returns
  the empty list. When the file holds text that is not JSON, the \<open>JSONDecodeError\<close> of
  \<open>json.load\<close> is not caught (the handler names \<open>FileNotFoundError\<close> only): the call
  raises, and nothing is returned or printed.
\<close>

theorem load_previous_trends_missing_or_malformed:
  "load_previous_trends (w\<lparr>files := (files w)(filename := None)\<rparr>) filename = Inr (JList []) \<and>
   load_previous_trends (w\<lparr>files := (files w)(filename \<mapsto> Malformed)\<rparr>) filename
     = Inl JSONDecodeError"
  by (simp add: load_previous_trends_def)

text \<open>On a malformed log the call raises; the result is not the empty list.\<close>

theorem load_previous_trends_malformed_raises:
  "load_previous_trends \<lparr>files = [previous_trends_json \<mapsto> Malformed], stdout = []\<rparr>
     previous_trends_json = Inl JSONDecodeError"
  by (simp add: load_previous_trends_def)

text \<open>
  What \<open>save_processed_trends\<close> writes, \<open>load_previous_trends\<close> reads back: the log is
  overwritten with the given keywords.
\<close>

lemma load_after_save_processed_trends:
  "load_previous_trends (save_processed_trends c w keywords filename) filename
     = Inr (JList (map JStr keywords))"
  by (simp add: load_previous_trends_def save_processed_trends_def)

section \<open>Properties of a run\<close>

lemma data_file_name_neq_log:
  "py ''kenya_trends_data_'' @ s @ py ''.json'' \<noteq> previous_trends_json"
  by (simp add: py_def previous_trends_json_def)

lemma files_print [simp]: "files (print ms w) = files w"
  by (simp add: print_def)

lemma stdout_print [simp]: "stdout (print ms w) = stdout w @ ms"
  by (simp add: print_def)

lemma files_save_data_log:
  "files (save_data c w data None) previous_trends_json = files w previous_trends_json"
  using data_file_name_neq_log[of "strftime (fst (now c))"]
  by (auto simp: save_data_def Let_def split: option.splits)

lemma run_automation_keeps_log:
  "files (run_automation src gen env w) previous_trends_json = files w previous_trends_json"
  by (simp add: run_automation_def Let_def files_save_data_log split: sum.splits prod.splits)

lemma run_automation_no_keywords:
  "run_automation (src\<lparr>get_trending_searches := []\<rparr>) gen env w =
     print [Starting (fst (now (snd env))), FetchingTrending, NoKeywordsFound] w"
  by (simp add: run_automation_def Let_def print_def)

lemma create_social_media_posts_Nil:
  "create_social_media_posts gen [] interest related_queries_data env = Inr ([], env)"
  by (simp add: create_social_media_posts_def)

text \<open>
  C4, as the code has it. On an empty keyword list \<open>create_social_media_posts\<close> returns
  the empty list. A run whose fetched keyword list is empty prints that no trending
  keywords were found and returns at once: it does not crash, and it writes no file.
\<close>

theorem empty_trending_list_returns_early:
  "create_social_media_posts gen [] interest related_queries_data env = Inr ([], env) \<and>
   run_automation (src\<lparr>get_trending_searches := []\<rparr>) gen env w =
     print [Starting (fst (now (snd env))), FetchingTrending, NoKeywordsFound] w \<and>
   files (run_automation (src\<lparr>get_trending_searches := []\<rparr>) gen env w) = files w"
  by (simp add: run_automation_no_keywords create_social_media_posts_Nil)

text \<open>A run on an empty keyword list, started with no files, ends with no files.\<close>

theorem empty_trending_list_writes_no_file:
  "files (run_automation
            \<lparr>get_trending_searches = [], get_interest_over_time = (\<lambda>kws. []),
             get_related_queries = (\<lambda>kw. [])\<rparr>
            SocialMediaGenerator_init
            (\<lambda>i. 0, \<lambda>i. \<lparr>isoformat = py ''2024-01-01T09:00:00'', strftime = py ''20240101_090000''\<rparr>)
            \<lparr>files = Map.empty, stdout = []\<rparr>) = Map.empty"
  by (simp add: run_automation_def Let_def)

text \<open>
  C5, as the code has it. \<open>run_automation\<close> calls neither \<open>load_previous_trends\<close> nor
  \<open>save_processed_trends\<close>: a run leaves the processed-keyword log as it found it, and
  what the log holds changes nothing else of the run.
\<close>

theorem run_automation_ignores_log:
  "files (run_automation src gen env w) previous_trends_json = files w previous_trends_json \<and>
   run_automation src gen env (w\<lparr>files := (files w)(previous_trends_json := x)\<rparr>) =
     (run_automation src gen env w)
       \<lparr>files := (files (run_automation src gen env w))(previous_trends_json := x)\<rparr>"
  apply (rule conjI)
   apply (rule run_automation_keeps_log)
  apply (simp add: run_automation_def Let_def print_def split: sum.splits prod.splits)
  apply (simp add: save_data_def Let_def print_def fun_upd_twist[OF data_file_name_neq_log]
      split: option.splits)
  done

text \<open>A run with one keyword, started without a log, ends without a log.\<close>

theorem run_leaves_log_missing:
  "files (run_automation
            \<lparr>get_trending_searches = [py ''NTSA''],
             get_interest_over_time = (\<lambda>kws. [(py ''NTSA'', 85)]),
             get_related_queries = (\<lambda>kw. [])\<rparr>
            SocialMediaGenerator_init
            (\<lambda>i. 0, \<lambda>i. \<lparr>isoformat = py ''2024-01-01T09:00:00'', strftime = py ''20240101_090000''\<rparr>)
            \<lparr>files = Map.empty, stdout = []\<rparr>) previous_trends_json = None"
  by (simp add: run_automation_keeps_log)

section \<open>Related queries are fetched for three keywords\<close>





lemma generate_context_no_top:
  "truth_value (map_of related_queries (py ''top'')) = Inr False \<Longrightarrow>
   generate_context kw interest related_queries = Inr (context_result (interest_parts kw interest))"
  by (simp add: generate_context_def Let_def)


lemma context_result_interest_parts:
  "context_result (interest_parts kw interest) =
     (case map_of interest kw of
        None \<Rightarrow> fallback_phrase
      | Some level \<Rightarrow> if level > 80 then peak_phrase
                       else if level > 50 then growing_phrase else momentum_phrase)"
  by (simp add: context_result_def interest_parts_def split: option.splits)



section \<open>Random draws\<close>


lemma mset_butlast_update_last:
  assumes "j < length pool"
  shows "add_mset (pool ! j) (mset (butlast (pool[j := last pool]))) = mset pool"
proof -
  from assms have ne: "pool \<noteq> []" by auto
  then obtain ys y where pool: "pool = ys @ [y]" by (metis rev_exhaust)
  show ?thesis
  proof (cases "j < length ys")
    case True
    then have "butlast (pool[j := last pool]) = ys[j := y]"
      by (simp add: pool list_update_append1)
    moreover have "pool ! j = ys ! j" using True by (simp add: pool nth_append)
    moreover have "add_mset (ys ! j) (mset (ys[j := y])) = add_mset y (mset ys)"
      using True by (simp add: mset_update add_mset_commute)
    ultimately show ?thesis by (simp add: pool)
  next
    case False
    with assms have "j = length ys" by (simp add: pool)
    then show ?thesis by (simp add: pool)
  qed
qed

lemma sample_loop_props:
  "k \<le> length pool \<Longrightarrow> sample_loop k pool r = (xs, r') \<Longrightarrow>
     length xs = k \<and> mset xs \<subseteq># mset pool"
proof (induction k arbitrary: pool r xs r')
  case 0
  then show ?case by simp
next
  case (Suc k)
  let ?j = "r 0 mod length pool"
  let ?pool' = "butlast (pool[?j := last pool])"
  from Suc.prems(1) have pos: "0 < length pool" by (cases pool) auto
  then have j: "?j < length pool" by simp
  obtain ys r2 where rec: "sample_loop k ?pool' (\<lambda>i. r (Suc i)) = (ys, r2)"
    by (cases "sample_loop k ?pool' (\<lambda>i. r (Suc i))")
  from Suc.prems(2) rec have xs: "xs = pool ! ?j # ys"
    by (simp add: randbelow_def)
  have "k \<le> length ?pool'" using Suc.prems(1) by simp
  from Suc.IH[OF this rec] have ih: "length ys = k" "mset ys \<subseteq># mset ?pool'" by auto
  have "add_mset (pool ! ?j) (mset ys) \<subseteq># add_mset (pool ! ?j) (mset ?pool')"
    using ih(2) by simp
  then have "mset xs \<subseteq># mset pool"
    using mset_butlast_update_last[OF j] by (simp add: xs)
  with ih(1) xs show ?case by simp
qed

lemma sample_props:
  "sample r population k = Inr (xs, r') \<Longrightarrow> length xs = k \<and> mset xs \<subseteq># mset population"
  using sample_loop_props[of k population r xs r']
  by (auto simp: sample_def split: if_splits)

lemma choice_member:
  "choice r seq = Inr (x, r') \<Longrightarrow> x \<in> set seq \<and> x = seq ! (r 0 mod length seq)"
  by (auto simp: choice_def randbelow_def split: if_splits)

section \<open>Every post of a batch\<close>


lemma make_post_props:
  assumes "make_post gen kw interest rqd env = Inr (p, env')"
  shows "keyword p = kw \<and> character_count p = length (content p) \<and>
         template_type p \<in> set template_types \<and>
         (\<exists>ctx pool template formatted hashtags.
            generate_context kw interest (get_related rqd kw) = Inr ctx \<and>
            lookup_templates gen (template_type p) = Inr pool \<and> template \<in> set pool \<and>
            format template [(py ''keyword'', kw), (py ''context'', ctx)] = Inr formatted \<and>
            length hashtags = 3 \<and> mset hashtags \<subseteq># mset (hashtags_kenya gen) \<and>
            content p = formatted @ py '' '' @ join (py '' '') hashtags)"
proof -
  from assms obtain ctx where ctx: "generate_context kw interest (get_related rqd kw) = Inr ctx"
    by (auto simp: make_post_def bind_err_def split: sum.splits)
  from assms ctx obtain ttype r1 where ty: "choice (fst env) template_types = Inr (ttype, r1)"
    by (auto simp: make_post_def bind_err_def split: sum.splits)
  from assms ctx ty obtain pool where pool: "lookup_templates gen ttype = Inr pool"
    by (auto simp: make_post_def bind_err_def split: sum.splits)
  from assms ctx ty pool obtain template r2 where tp: "choice r1 pool = Inr (template, r2)"
    by (auto simp: make_post_def bind_err_def split: sum.splits)
  from assms ctx ty pool tp obtain formatted where
    fm: "format template [(py ''keyword'', kw), (py ''context'', ctx)] = Inr formatted"
    by (auto simp: make_post_def bind_err_def split: sum.splits)
  from assms ctx ty pool tp fm obtain hashtags r3 where
    hs: "sample r2 (hashtags_kenya gen) 3 = Inr (hashtags, r3)"
    by (auto simp: make_post_def bind_err_def split: sum.splits)
  from assms ctx ty pool tp fm hs have p:
    "p = \<lparr> content = formatted @ py '' '' @ join (py '' '') hashtags, keyword = kw,
           template_type = ttype, timestamp = isoformat (fst (now (snd env))),
           platform = py ''multiple'',
           character_count = length (formatted @ py '' '' @ join (py '' '') hashtags) \<rparr>"
    by (simp add: make_post_def bind_err_def Let_def)
  from choice_member[OF ty] have "ttype \<in> set template_types" by blast
  moreover from choice_member[OF tp] have "template \<in> set pool" by blast
  moreover note sample_props[OF hs] ctx pool fm
  ultimately show ?thesis by (auto simp: p)
qed

lemma posts_loop_props:
  "posts_loop gen kws interest rqd env = Inr (posts, env') \<Longrightarrow>
     length posts = length kws \<and>
     (\<forall>i < length kws. \<exists>e e'. make_post gen (kws ! i) interest rqd e = Inr (posts ! i, e'))"
proof (induction kws arbitrary: env posts env')
  case Nil
  then show ?case by simp
next
  case (Cons kw kws)
  from Cons.prems obtain p env1 where mp: "make_post gen kw interest rqd env = Inr (p, env1)"
    by (auto simp: bind_err_def split: sum.splits)
  from Cons.prems mp obtain ps env2 where
    rec: "posts_loop gen kws interest rqd env1 = Inr (ps, env2)"
    by (auto simp: bind_err_def split: sum.splits)
  from Cons.prems mp rec have posts: "posts = p # ps" by (simp add: bind_err_def)
  from Cons.IH[OF rec] have ih: "length ps = length kws"
    "\<forall>i < length kws. \<exists>e e'. make_post gen (kws ! i) interest rqd e = Inr (ps ! i, e')"
    by auto
  show ?case
  proof (intro conjI allI impI)
    show "length posts = length (kw # kws)" using ih(1) posts by simp
  next
    fix i assume i: "i < length (kw # kws)"
    show "\<exists>e e'. make_post gen ((kw # kws) ! i) interest rqd e = Inr (posts ! i, e')"
    proof (cases i)
      case 0
      then have "(kw # kws) ! i = kw" "posts ! i = p" using posts by simp_all
      with mp show ?thesis by metis
    next
      case (Suc j)
      then have "(kw # kws) ! i = kws ! j" "posts ! i = ps ! j" "j < length kws"
        using posts i by simp_all
      with ih(2) show ?thesis by metis
    qed
  qed
qed

lemma template_types_four:
  "set template_types \<subseteq> {py ''trending'', py ''educational'', py ''engagement'', py ''news''}"
  by (auto simp: template_types_def)





lemma choice_zero: "seq \<noteq> [] \<Longrightarrow> choice (\<lambda>i. 0) seq = Inr (hd seq, \<lambda>i. 0)"
  by (cases seq) (simp_all add: choice_def randbelow_def)

lemma randbelow_zero: "randbelow (\<lambda>i. 0) n = (0, \<lambda>i. 0)"
  by (simp add: randbelow_def)

lemma sample_zero_ten:
  "sample (\<lambda>i. 0) [a, b, c, d, e, f, g, h, i, j] 3 = Inr ([a, j, i], \<lambda>i. 0)"
  by (simp add: sample_def randbelow_zero numeral_3_eq_3)

lemma hashtags_init:
  "hashtags_kenya SocialMediaGenerator_init = [
       py ''#Kenya'', py ''#Nairobi'', py ''#KenyaTrends'', py ''#KOT'', py ''#TukoTogether'',
       py ''#KenyaDaily'', py ''#EastAfrica'', py ''#Kenyan'', py ''#NairobiLife'', py ''#KenyaNews'']"
  by (simp add: SocialMediaGenerator_init_def)

lemma sample_zero_init:
  "sample (\<lambda>i. 0) (hashtags_kenya SocialMediaGenerator_init) 3 =
     Inr ([py ''#Kenya'', py ''#KenyaNews'', py ''#NairobiLife''], \<lambda>i. 0)"
  unfolding hashtags_init by (rule sample_zero_ten)

lemma generate_context_example:
  "generate_context (py ''NTSA'') [(py ''NTSA'', 85)] (get_related [] (py ''NTSA'')) = Inr peak_phrase"
  by (simp add: generate_context_def get_related_def interest_parts_def context_result_def)

lemma lookup_templates_init_trending:
  "\<exists>rest. lookup_templates SocialMediaGenerator_init (py ''trending'') =
     Inr (([128293] @ py '' What's trending in Kenya right now: '{keyword}' is gaining massive attention! {context} #TrendingKenya #Kenya'') # rest)"
  by (simp add: lookup_templates_def SocialMediaGenerator_init_def)

lemmas format_eval = format_def py_def lbrace_def rbrace_def get_field_def field_special_def
  is_digit_def prepend_def

lemma format_example:
  "format ([128293] @ py '' What's trending in Kenya right now: '{keyword}' is gaining massive attention! {context} #TrendingKenya #Kenya'')
     [(py ''keyword'', py ''NTSA''), (py ''context'', peak_phrase)] =
   Inr ([128293] @ py '' What's trending in Kenya right now: 'NTSA' is gaining massive attention! Search interest is at its peak! #TrendingKenya #Kenya'')"
  by (simp add: format_eval peak_phrase_def)

lemma example_content_eq:
  "([128293] @ py '' What's trending in Kenya right now: 'NTSA' is gaining massive attention! Search interest is at its peak! #TrendingKenya #Kenya'') @ py '' '' @ join (py '' '') [py ''#Kenya'', py ''#KenyaNews'', py ''#NairobiLife'']
     = example_content"
  by (simp add: py_def example_content_def)


lemma make_post_example:
  "make_post SocialMediaGenerator_init (py ''NTSA'') [(py ''NTSA'', 85)] [] (\<lambda>i. 0, example_clock) =
     Inr (example_post, \<lambda>i. 0, example_clock)"
proof -
  obtain rest where lk: "lookup_templates SocialMediaGenerator_init (py ''trending'') =
     Inr (([128293] @ py '' What's trending in Kenya right now: '{keyword}' is gaining massive attention! {context} #TrendingKenya #Kenya'') # rest)"
    using lookup_templates_init_trending by blast
  have ty: "choice (\<lambda>i. 0) template_types = Inr (py ''trending'', \<lambda>i. 0)"
    by (simp add: choice_zero template_types_def)
  show ?thesis
    unfolding make_post_def generate_context_example bind_err_def sum.case fst_conv snd_conv ty
      prod.case lk choice_zero[OF list.distinct(2)] list.sel format_example sample_zero_init Let_def
      example_content_eq
    by (simp add: example_post_def now_def example_clock_def)
qed

lemma create_example:
  "create_social_media_posts SocialMediaGenerator_init [py ''NTSA''] [(py ''NTSA'', 85)] []
     (\<lambda>i. 0, example_clock) = Inr ([example_post], \<lambda>i. 0, example_clock)"
  by (simp add: create_social_media_posts_def make_post_example bind_err_def)

text \<open>
  C6. Every post that \<open>create_social_media_posts\<close> returns has a \<open>character_count\<close>
  equal to the length of its final content, a \<open>template_type\<close> among the four
  categories, and a content that ends in a space and three hashtags joined by spaces,
  the three drawn without replacement from \<open>hashtags_kenya\<close>.
\<close>

theorem post_invariants:
  assumes "create_social_media_posts gen kws interest rqd env = Inr (posts, env')"
      and "p \<in> set posts"
  shows "character_count p = length (content p) \<and>
         template_type p \<in> {py ''trending'', py ''educational'', py ''engagement'', py ''news''} \<and>
         (\<exists>ctx pool template formatted hashtags.
            lookup_templates gen (template_type p) = Inr pool \<and> template \<in> set pool \<and>
            format template [(py ''keyword'', keyword p), (py ''context'', ctx)] = Inr formatted \<and>
            length hashtags = 3 \<and> mset hashtags \<subseteq># mset (hashtags_kenya gen) \<and>
            content p = formatted @ py '' '' @ join (py '' '') hashtags)"
proof -
  from assms(1) have loop: "posts_loop gen (take 5 kws) interest rqd env = Inr (posts, env')"
    by (simp add: create_social_media_posts_def)
  from assms(2) obtain i where i: "i < length posts" "posts ! i = p"
    by (auto simp: in_set_conv_nth)
  from posts_loop_props[OF loop] i obtain e e' where
    "make_post gen (take 5 kws ! i) interest rqd e = Inr (p, e')"
    by auto
  from make_post_props[OF this] template_types_four show ?thesis
    by (elim conjE exE) (intro conjI exI, auto)
qed

theorem post_invariants_witness:
  "create_social_media_posts SocialMediaGenerator_init [py ''NTSA''] [(py ''NTSA'', 85)] []
     (\<lambda>i. 0, example_clock) = Inr ([example_post], \<lambda>i. 0, example_clock) \<and>
   example_post \<in> set [example_post] \<and>
   character_count example_post = length (content example_post) \<and>
   (\<exists>formatted hashtags.
      length hashtags = 3 \<and>
      mset hashtags \<subseteq># mset (hashtags_kenya SocialMediaGenerator_init) \<and>
      content example_post = formatted @ py '' '' @ join (py '' '') hashtags)"
proof -
  have m: "example_post \<in> set [example_post]" by simp
  from post_invariants[OF create_example m] create_example m show ?thesis by blast
qed

section \<open>The choice of category and template\<close>



lemma template_types_list:
  "template_types = [py ''trending'', py ''educational'', py ''engagement''] \<and>
   distinct template_types \<and> py ''news'' \<notin> set template_types"
  by (simp add: template_types_def py_def)

lemma choice_result:
  "choice r seq = Inr (x, r') \<Longrightarrow>
     seq \<noteq> [] \<and> x = seq ! (r 0 mod length seq) \<and> r' = (\<lambda>i. r (Suc i))"
  by (auto simp: choice_def randbelow_def split: if_splits)

lemma length_template_types: "length template_types = 3"
  by (simp add: template_types_def)

lemma make_post_choices:
  assumes "make_post gen kw interest rqd env = Inr (p, env')"
  shows "template_type p = template_types ! (fst env 0 mod 3) \<and>
         (\<exists>ctx pool formatted hashtags.
            generate_context kw interest (get_related rqd kw) = Inr ctx \<and>
            lookup_templates gen (template_type p) = Inr pool \<and> pool \<noteq> [] \<and>
            format (pool ! (fst env 1 mod length pool))
              [(py ''keyword'', kw), (py ''context'', ctx)] = Inr formatted \<and>
            content p = formatted @ py '' '' @ join (py '' '') hashtags)"
proof -
  from assms obtain ctx where ctx: "generate_context kw interest (get_related rqd kw) = Inr ctx"
    by (auto simp: make_post_def bind_err_def split: sum.splits)
  from assms ctx obtain ttype r1 where ty: "choice (fst env) template_types = Inr (ttype, r1)"
    by (auto simp: make_post_def bind_err_def split: sum.splits)
  from assms ctx ty obtain pool where pool: "lookup_templates gen ttype = Inr pool"
    by (auto simp: make_post_def bind_err_def split: sum.splits)
  from assms ctx ty pool obtain template r2 where tp: "choice r1 pool = Inr (template, r2)"
    by (auto simp: make_post_def bind_err_def split: sum.splits)
  from assms ctx ty pool tp obtain formatted where
    fm: "format template [(py ''keyword'', kw), (py ''context'', ctx)] = Inr formatted"
    by (auto simp: make_post_def bind_err_def split: sum.splits)
  from assms ctx ty pool tp fm obtain hashtags r3 where
    hs: "sample r2 (hashtags_kenya gen) 3 = Inr (hashtags, r3)"
    by (auto simp: make_post_def bind_err_def split: sum.splits)
  from assms ctx ty pool tp fm hs have p:
    "template_type p = ttype" "content p = formatted @ py '' '' @ join (py '' '') hashtags"
    by (auto simp: make_post_def bind_err_def Let_def)
  from choice_result[OF ty] have t1:
    "ttype = template_types ! (fst env 0 mod 3)" "r1 = (\<lambda>i. fst env (Suc i))"
    by (simp_all add: length_template_types)
  from choice_result[OF tp] t1(2) have t2:
    "pool \<noteq> []" "template = pool ! (fst env 1 mod length pool)"
    by simp_all
  show ?thesis
    unfolding p(1) t1(1)[symmetric]
    using ctx pool t2 fm p(2) by blast
qed

text \<open>
  C7, as the code has it. The category is drawn from the list \<open>trending\<close>,
  \<open>educational\<close>, \<open>engagement\<close>: it is the entry at the index that the first draw
  gives below 3, so each of the three distinct categories comes from exactly one
  outcome of that draw, and \<open>news\<close> is never the category. The template is the entry of
  that category's pool at the index that the second draw gives below the pool's length.
\<close>

theorem category_chosen_among_three:
  assumes "make_post gen kw interest rqd env = Inr (p, env')"
  shows "template_types = [py ''trending'', py ''educational'', py ''engagement''] \<and>
         distinct template_types \<and>
         template_type p = template_types ! (fst env 0 mod 3) \<and>
         template_type p \<noteq> py ''news'' \<and>
         (\<exists>ctx pool formatted hashtags.
            generate_context kw interest (get_related rqd kw) = Inr ctx \<and>
            lookup_templates gen (template_type p) = Inr pool \<and> pool \<noteq> [] \<and>
            format (pool ! (fst env 1 mod length pool))
              [(py ''keyword'', kw), (py ''context'', ctx)] = Inr formatted \<and>
            content p = formatted @ py '' '' @ join (py '' '') hashtags)"
proof -
  note c = make_post_choices[OF assms]
  have "fst env 0 mod 3 < length template_types" by (simp add: length_template_types)
  then have "template_types ! (fst env 0 mod 3) \<in> set template_types" by (rule nth_mem)
  with c template_types_list have nn: "template_type p \<noteq> py ''news''" by auto
  show ?thesis
    apply (intro conjI)
    using c nn template_types_list by blast+
qed

theorem category_chosen_among_three_witness:
  "make_post SocialMediaGenerator_init (py ''NTSA'') [(py ''NTSA'', 85)] [] (\<lambda>i. 0, example_clock) =
     Inr (example_post, \<lambda>i. 0, example_clock) \<and>
   template_type example_post = template_types ! (fst (\<lambda>i::nat. 0::nat, example_clock) 0 mod 3) \<and>
   template_type example_post \<noteq> py ''news''"
proof -
  note t = category_chosen_among_three[OF make_post_example]
  from t have a: "template_type example_post =
      template_types ! (fst (\<lambda>i::nat. 0::nat, example_clock) 0 mod 3)"
    by (elim conjE)
  from t have b: "template_type example_post \<noteq> py ''news''"
    by (elim conjE)
  from a b make_post_example show ?thesis by (intro conjI)
qed

lemma keys_init: "map fst (post_templates SocialMediaGenerator_init) = template_types"
  by (simp add: SocialMediaGenerator_init_def template_types_def)

text \<open>
  No outcome of the random source makes \<open>news\<close> the category, and the generator has no
  pool of that name.
\<close>

theorem news_is_never_chosen:
  "\<not> (\<exists>r r'. choice r template_types = Inr (py ''news'', r')) \<and>
   lookup_templates SocialMediaGenerator_init (py ''news'') = Inl KeyError"
proof -
  have nn: "py ''news'' \<notin> set template_types"
    using template_types_list by simp
  then have "py ''news'' \<notin> fst ` set (post_templates SocialMediaGenerator_init)"
    using keys_init by (metis set_map)
  then have "map_of (post_templates SocialMediaGenerator_init) (py ''news'') = None"
    by (simp add: map_of_eq_None_iff)
  then have l: "lookup_templates SocialMediaGenerator_init (py ''news'') = Inl KeyError"
    by (simp add: lookup_templates_def)
  have "\<not> (\<exists>r r'. choice r template_types = Inr (py ''news'', r'))"
  proof
    assume "\<exists>r r'. choice r template_types = Inr (py ''news'', r')"
    then obtain r r' where "choice r template_types = Inr (py ''news'', r')" by blast
    from choice_member[OF this] nn show False by simp
  qed
  with l show ?thesis by simp
qed

section \<open>A template without placeholders\<close>








lemma generate_context_returns:
  "truth_value (map_of (get_related rqd kw) (py ''top'')) = Inr False \<Longrightarrow>
     \<exists>ctx. generate_context kw interest (get_related rqd kw) = Inr ctx"
  by (simp add: generate_context_no_top)









section \<open>Related queries without a frame\<close>


lemma contains_Cons: "contains xs needle \<Longrightarrow> contains (x # xs) needle"
proof -
  assume "contains xs needle"
  then obtain pre post where "xs = pre @ needle @ post" by (auto simp: contains_def)
  then have "x # xs = (x # pre) @ needle @ post" by simp
  then show ?thesis unfolding contains_def by blast
qed

lemma contains_prefix: "contains (needle @ ys) needle"
  unfolding contains_def by (rule exI[of _ "[]"], rule exI[of _ ys]) simp

lemma contains_append_right: "contains xs needle \<Longrightarrow> contains (xs @ ys) needle"
proof -
  assume "contains xs needle"
  then obtain pre post where "xs = pre @ needle @ post" by (auto simp: contains_def)
  then have "xs @ ys = pre @ needle @ (post @ ys)" by simp
  then show ?thesis unfolding contains_def by blast
qed

lemma format_trending_init:
  assumes "lookup_templates SocialMediaGenerator_init (py ''trending'') = Inr pool"
      and "template \<in> set pool"
  shows "\<exists>s. format template [(py ''keyword'', kw), (py ''context'', ctx)] = Inr s \<and> contains s kw"
proof -
  from assms have "template \<in> {
      [128293] @ py '' What's trending in Kenya right now: '{keyword}' is gaining massive attention! {context} #TrendingKenya #Kenya'',
      [128200] @ py '' Kenyans are talking about '{keyword}' - here's what you need to know: {context} #KenyaTrends'',
      [127472] @ [127466] @ py '' Breaking: '{keyword}' is trending across Kenya! {context} #KenyaNews #Trending'',
      [9889] @ py '' Hot topic alert: '{keyword}' is the talk of Kenya today! {context} #KenyaTrends #Viral''}"
    by (auto simp: lookup_templates_def SocialMediaGenerator_init_def)
  then show ?thesis
    by (elim insertE emptyE) (simp_all add: format_eval, (intro contains_Cons contains_prefix)+)
qed


lemma template_type_keys_distinct:
  "py ''trending'' \<noteq> py ''educational''" "py ''trending'' \<noteq> py ''engagement''"
  "py ''educational'' \<noteq> py ''engagement''" "py ''educational'' \<noteq> py ''trending''"
  "py ''engagement'' \<noteq> py ''trending''" "py ''engagement'' \<noteq> py ''educational''"
  by (simp_all add: py_def)

lemma format_educational_init:
  assumes "lookup_templates SocialMediaGenerator_init (py ''educational'') = Inr pool"
      and "template \<in> set pool"
  shows "\<exists>s. format template [(py ''keyword'', kw), (py ''context'', ctx)] = Inr s \<and> contains s kw"
proof -
  from assms have "template \<in> {
      [128218] @ py '' Did you know? '{keyword}' is trending in Kenya. Here's why it matters: {context} #LearnSomethingNew #Kenya'',
      [127891] @ py '' Trending topic breakdown: '{keyword}' explained for Kenyans {context} #Education #KenyaInsights'',
      [128161] @ py '' Understanding the buzz around '{keyword}' in Kenya: {context} #Knowledge #TrendAnalysis''}"
    by (auto simp: lookup_templates_def SocialMediaGenerator_init_def template_type_keys_distinct)
  then show ?thesis
    by (elim insertE emptyE) (simp_all add: format_eval, (intro contains_Cons contains_prefix)+)
qed

lemma format_engagement_init:
  assumes "lookup_templates SocialMediaGenerator_init (py ''engagement'') = Inr pool"
      and "template \<in> set pool"
  shows "\<exists>s. format template [(py ''keyword'', kw), (py ''context'', ctx)] = Inr s \<and> contains s kw"
proof -
  from assms have "template \<in> {
      [129300] @ py '' What do you think about '{keyword}' trending in Kenya? Share your thoughts! {context} #KenyaDebate'',
      [128202] @ py '' Poll time! How do you feel about '{keyword}' trending in Kenya? {context} #KenyaOpinion #Vote'',
      [128172] @ py '' Let's discuss: '{keyword}' is trending - what's your take, Kenya? {context} #Discussion''}"
    by (auto simp: lookup_templates_def SocialMediaGenerator_init_def template_type_keys_distinct)
  then show ?thesis
    by (elim insertE emptyE) (simp_all add: format_eval, (intro contains_Cons contains_prefix)+)
qed

lemma lookup_templates_init:
  assumes "ttype \<in> set template_types"
  shows "\<exists>pool. lookup_templates SocialMediaGenerator_init ttype = Inr pool \<and> pool \<noteq> []"
proof -
  have "map_of (post_templates SocialMediaGenerator_init) ttype \<noteq> None"
    using assms keys_init by (metis map_of_eq_None_iff set_map)
  then obtain pool where m: "map_of (post_templates SocialMediaGenerator_init) ttype = Some pool"
    by blast
  then have "(ttype, pool) \<in> set (post_templates SocialMediaGenerator_init)"
    by (rule map_of_SomeD)
  then have "pool \<noteq> []"
    by (auto simp: SocialMediaGenerator_init_def)
  with m show ?thesis by (simp add: lookup_templates_def)
qed

lemma format_init:
  assumes "ttype \<in> set template_types"
      and "lookup_templates SocialMediaGenerator_init ttype = Inr pool"
      and "template \<in> set pool"
  shows "\<exists>s. format template [(py ''keyword'', kw), (py ''context'', ctx)] = Inr s \<and> contains s kw"
proof -
  from assms(1) consider "ttype = py ''trending''" | "ttype = py ''educational''"
    | "ttype = py ''engagement''"
    by (auto simp: template_types_def)
  then show ?thesis
  proof cases
    case 1
    with assms(2,3) show ?thesis using format_trending_init by blast
  next
    case 2
    with assms(2,3) show ?thesis using format_educational_init by blast
  next
    case 3
    with assms(2,3) show ?thesis using format_engagement_init by blast
  qed
qed


lemma make_post_init:
  assumes "generate_context kw interest (get_related rqd kw) = Inr ctx"
  shows "\<exists>p env'. make_post SocialMediaGenerator_init kw interest rqd env = Inr (p, env') \<and>
           keyword p = kw \<and> contains (content p) kw"
proof -
  obtain ttype r1 where ty: "choice (fst env) template_types = Inr (ttype, r1)"
    by (cases "randbelow (fst env) (length template_types)")
       (simp add: choice_def template_types_def)
  from choice_member[OF ty] have mem: "ttype \<in> set template_types" by blast
  from lookup_templates_init[OF mem] obtain pool where
    lk: "lookup_templates SocialMediaGenerator_init ttype = Inr pool" and ne: "pool \<noteq> []"
    by blast
  from ne obtain template r2 where tp: "choice r1 pool = Inr (template, r2)"
    by (cases "randbelow r1 (length pool)") (simp add: choice_def)
  from choice_member[OF tp] have "template \<in> set pool" by blast
  from format_init[OF mem lk this, of kw ctx] obtain formatted where
    fm: "format template [(py ''keyword'', kw), (py ''context'', ctx)] = Inr formatted"
    and ct: "contains formatted kw"
    by blast
  have "\<not> 3 > length (hashtags_kenya SocialMediaGenerator_init)"
    by (simp add: hashtags_init)
  then obtain hashtags r3 where
    hs: "sample r2 (hashtags_kenya SocialMediaGenerator_init) 3 = Inr (hashtags, r3)"
    by (cases "sample_loop 3 (hashtags_kenya SocialMediaGenerator_init) r2")
       (simp add: sample_def)
  from ct have "contains (formatted @ py '' '' @ join (py '' '') hashtags) kw"
    by (rule contains_append_right)
  then show ?thesis
    by (simp add: make_post_def bind_err_def assms ty lk tp fm hs Let_def)
qed

lemma posts_loop_init:
  "list_all (\<lambda>kw. truth_value (map_of (get_related rqd kw) (py ''top'')) = Inr False) kws \<Longrightarrow>
     \<exists>posts env'. posts_loop SocialMediaGenerator_init kws interest rqd env = Inr (posts, env') \<and>
        map keyword posts = kws \<and>
        list_all (\<lambda>p. contains (content p) (keyword p)) posts"
proof (induction kws arbitrary: env)
  case Nil
  then show ?case by simp
next
  case (Cons kw kws)
  from Cons.prems have
    "truth_value (map_of (get_related rqd kw) (py ''top'')) = Inr False"
    by simp
  from generate_context_returns[OF this] obtain ctx where
    ctx: "generate_context kw interest (get_related rqd kw) = Inr ctx"
    by blast
  from make_post_init[OF ctx, of env] obtain p env1 where
    mp: "make_post SocialMediaGenerator_init kw interest rqd env = Inr (p, env1)"
    and p: "keyword p = kw" "contains (content p) kw"
    by blast
  from Cons.prems have
    "list_all (\<lambda>kw. truth_value (map_of (get_related rqd kw) (py ''top'')) = Inr False) kws"
    by simp
  from Cons.IH[OF this, of env1] obtain ps env2 where
    rec: "posts_loop SocialMediaGenerator_init kws interest rqd env1 = Inr (ps, env2)"
    and ps: "map keyword ps = kws" "list_all (\<lambda>p. contains (content p) (keyword p)) ps"
    by blast
  have a: "posts_loop SocialMediaGenerator_init (kw # kws) interest rqd env = Inr (p # ps, env2)"
    by (simp add: mp rec bind_err_def)
  have b: "map keyword (p # ps) = kw # kws" using p(1) ps(1) by simp
  have c: "list_all (\<lambda>p. contains (content p) (keyword p)) (p # ps)"
    using p ps(2) by simp
  show ?case
    by (rule exI[of _ "p # ps"], rule exI[of _ env2]) (intro conjI a b c)
qed

text \<open>
  When no keyword among the first five has a frame under \<open>'top'\<close>, the generator as
  constructed returns one post for each of the first five keywords, in their order;
  each post carries its keyword, and its content contains the keyword.
\<close>

lemma create_social_media_posts_without_frames:
  assumes "list_all (\<lambda>kw. truth_value (map_of (get_related rqd kw) (py ''top'')) = Inr False)
             (take 5 kws)"
  shows "\<exists>posts env'.
           create_social_media_posts SocialMediaGenerator_init kws interest rqd env
             = Inr (posts, env') \<and>
           length posts = min 5 (length kws) \<and>
           map keyword posts = take 5 kws \<and>
           list_all (\<lambda>p. contains (content p) (keyword p)) posts"
proof -
  from posts_loop_init[OF assms, of interest env] obtain posts env' where
    a: "posts_loop SocialMediaGenerator_init (take 5 kws) interest rqd env = Inr (posts, env')"
    and b: "map keyword posts = take 5 kws"
    and c: "list_all (\<lambda>p. contains (content p) (keyword p)) posts"
    by blast
  from b have "length (map keyword posts) = length (take 5 kws)" by simp
  then have d: "length posts = min 5 (length kws)" by (simp add: min.commute)
  show ?thesis
    unfolding create_social_media_posts_def
    by (rule exI[of _ posts], rule exI[of _ env']) (intro conjI a b c d)
qed

text \<open>
  When the related queries hold no frame under \<open>'top'\<close>, \<open>generate_context\<close> returns the
  one tier phrase of the keyword's interest level, or the fallback when the keyword has
  no level.
\<close>

lemma generate_context_without_frame:
  assumes "truth_value (map_of related_queries (py ''top'')) = Inr False"
  shows "generate_context kw interest related_queries =
     Inr (case map_of interest kw of
            None \<Rightarrow> fallback_phrase
          | Some level \<Rightarrow> if level > 80 then peak_phrase
                           else if level > 50 then growing_phrase else momentum_phrase)"
  by (simp add: generate_context_no_top[OF assms] context_result_interest_parts)

section \<open>A frame of related queries\<close>

text \<open>
  No value under \<open>'top'\<close> passes the truth test, so the related-searches phrase is
  never added: whenever \<open>generate_context\<close> returns, it returns the tier phrase or the
  fallback alone.
\<close>

lemma truth_value_never_True: "truth_value v \<noteq> Inr True"
  by (cases v rule: truth_value.cases) simp_all

lemma generate_context_result:
  "generate_context kw interest related_queries = Inr c \<Longrightarrow>
     c = context_result (interest_parts kw interest)"
  using truth_value_never_True[of "map_of related_queries (py ''top'')"]
  by (auto simp: generate_context_def Let_def split: sum.splits bool.splits)

text \<open>
  C2 at the input keyword \<open>NTSA\<close>, interest \<open>{NTSA: 85}\<close>, related queries with a frame
  of one query under \<open>'top'\<close>: \<open>generate_context\<close> raises \<open>ValueError\<close> at the truth test
  of the frame and returns no context.
\<close>

theorem generate_context_frame_raises:
  "generate_context (py ''NTSA'') [(py ''NTSA'', 85)]
     [(py ''top'', DataFrame [py ''ntsa portal'']), (py ''rising'', PyNone)] = Inl ValueError"
  by (simp add: generate_context_def)

text \<open>
  C1 at the same input: the exception leaves \<open>create_social_media_posts\<close>, which returns
  no posts for the one keyword.
\<close>

theorem create_social_media_posts_frame_raises:
  "create_social_media_posts SocialMediaGenerator_init [py ''NTSA''] [(py ''NTSA'', 85)]
     [(py ''NTSA'', [(py ''top'', DataFrame [py ''ntsa portal'']), (py ''rising'', PyNone)])] env
   = Inl ValueError"
  by (simp add: create_social_media_posts_def make_post_def bind_err_def get_related_def
      generate_context_def)

end
